theory Spec2Isabelle
  imports Complex_Main "HOL-Library.Log_Nat"
begin

section \<open>Numbers\<close>

text \<open>
  The pages under \<^verbatim>\<open>src/frontend/src/pages\<close> compare the scores they show with
  literals. A finite IEEE double is a rational number and the comparison of two finite
  doubles is the comparison of their values, so a score is modelled as a \<^typ>\<open>rat\<close>
  and a decimal literal of the source as the decimal it writes. The values \<^verbatim>\<open>NaN\<close>
  and \<^verbatim>\<open>undefined\<close> are not numbers of a profile (a JSON response carries neither)
  and are outside the model of a score. The one card that adds and divides, on the
  historical analysis page, is modelled with the numbers of JavaScript, \<^verbatim>\<open>NaN\<close>
  and rounding included.
\<close>

type_synonym number = rat

section \<open>Risk assessment page (Settings.js, Dashboard.js)\<close>

text \<open>
  One entry of \<^verbatim>\<open>riskData\<close>:
  \<^verbatim>\<open>{ region: 'Europe', risk: 0.25, factors: [...], trend: 'decreasing' }\<close>
\<close>

record risk_item =
  region :: string
  risk :: number
  factors :: "string list"
  trend :: string

text \<open>
  \<^verbatim>\<open>
  const getRiskColor = (risk) => {
    if (risk < 0.3) return '#22c55e';
    if (risk < 0.6) return '#f59e0b';
    return '#ef4444';
  };
  const getRiskLevel = (risk) => {
    if (risk < 0.3) return 'Low';
    if (risk < 0.6) return 'Medium';
    return 'High';
  };
  \<close>
\<close>

definition getRiskColor :: "number \<Rightarrow> string" where
  "getRiskColor r =
     (if r < 0.3 then ''#22c55e'' else if r < 0.6 then ''#f59e0b'' else ''#ef4444'')"

definition getRiskLevel :: "number \<Rightarrow> string" where
  "getRiskLevel r =
     (if r < 0.3 then ''Low'' else if r < 0.6 then ''Medium'' else ''High'')"

text \<open>
  Dashboard.js declares its own \<^verbatim>\<open>getRiskLevel\<close>, with the same body:
  \<^verbatim>\<open>
  const getRiskLevel = (risk) => {
    if (risk < 0.3) return 'Low';
    if (risk < 0.6) return 'Medium';
    return 'High';
  };
  \<close>
\<close>

definition Dashboard_getRiskLevel :: "number \<Rightarrow> string" where
  "Dashboard_getRiskLevel r =
     (if r < 0.3 then ''Low'' else if r < 0.6 then ''Medium'' else ''High'')"

text \<open>
  The three counters of the "Risk Summary" card:
  \<^verbatim>\<open>
  riskData.filter(r => r.risk < 0.3).length                       Low Risk Regions
  riskData.filter(r => r.risk >= 0.3 && r.risk < 0.6).length      Medium Risk Regions
  riskData.filter(r => r.risk >= 0.6).length                      High Risk Regions
  \<close>
\<close>

definition lowRiskRegions :: "risk_item list \<Rightarrow> nat" where
  "lowRiskRegions riskData = length (filter (\<lambda>r. risk r < 0.3) riskData)"

definition mediumRiskRegions :: "risk_item list \<Rightarrow> nat" where
  "mediumRiskRegions riskData =
     length (filter (\<lambda>r. risk r \<ge> 0.3 \<and> risk r < 0.6) riskData)"

definition highRiskRegions :: "risk_item list \<Rightarrow> nat" where
  "highRiskRegions riskData = length (filter (\<lambda>r. risk r \<ge> 0.6) riskData)"

section \<open>Market impact page (MarketImpact.js)\<close>

text \<open>
  One entry of \<^verbatim>\<open>impactData\<close>:
  \<^verbatim>\<open>{ sector: 'Energy', impact: 0.6, volatility: 0.4, sentiment: 0.3, volume: 890000 }\<close>.
  The field \<^verbatim>\<open>sentiment\<close> is written \<open>sector_sentiment\<close> here, the news items
  below have a field of the same name.
\<close>

record impact_item =
  sector :: string
  impact :: number
  volatility :: number
  sector_sentiment :: number
  volume :: number

text \<open>
  \<^verbatim>\<open>
  const getImpactLevel = (impact) => {
    if (impact > 0.7) return 'High';
    if (impact > 0.4) return 'Medium';
    return 'Low';
  };
  \<close>
\<close>

definition getImpactLevel :: "number \<Rightarrow> string" where
  "getImpactLevel i =
     (if i > 0.7 then ''High'' else if i > 0.4 then ''Medium'' else ''Low'')"

text \<open>
  The "Recommendation" cell of a sector card:
  \<^verbatim>\<open>
  {item.impact > 0.7 ? 'Monitor Closely' :
   item.impact > 0.4 ? 'Watch for Changes' :
   'Stable'}
  \<close>
\<close>

definition recommendation :: "number \<Rightarrow> string" where
  "recommendation i =
     (if i > 0.7 then ''Monitor Closely''
      else if i > 0.4 then ''Watch for Changes''
      else ''Stable'')"

text \<open>
  The two lists of the "Investment Recommendations" card:
  \<^verbatim>\<open>
  impactData.filter(item => item.impact > 0.7)     High Impact Sectors
  impactData.filter(item => item.impact < 0.4)     Stable Sectors
  \<close>
\<close>

definition highImpactSectors :: "impact_item list \<Rightarrow> impact_item list" where
  "highImpactSectors impactData = filter (\<lambda>item. impact item > 0.7) impactData"

definition stableSectors :: "impact_item list \<Rightarrow> impact_item list" where
  "stableSectors impactData = filter (\<lambda>item. impact item < 0.4) impactData"

text \<open>The demonstration data of the page (the \<^verbatim>\<open>catch\<close> block of \<^verbatim>\<open>fetchImpactData\<close>).\<close>

definition mock_impact :: "impact_item list" where
  "mock_impact =
     [\<lparr>sector = ''Technology'', impact = 0.8, volatility = 0.3, sector_sentiment = 0.7, volume = 1250000\<rparr>,
      \<lparr>sector = ''Energy'', impact = 0.6, volatility = 0.4, sector_sentiment = 0.3, volume = 890000\<rparr>,
      \<lparr>sector = ''Finance'', impact = 0.9, volatility = 0.2, sector_sentiment = 0.6, volume = 2100000\<rparr>,
      \<lparr>sector = ''Healthcare'', impact = 0.4, volatility = 0.1, sector_sentiment = 0.8, volume = 650000\<rparr>,
      \<lparr>sector = ''Manufacturing'', impact = 0.7, volatility = 0.3, sector_sentiment = 0.5, volume = 980000\<rparr>,
      \<lparr>sector = ''Consumer Goods'', impact = 0.5, volatility = 0.2, sector_sentiment = 0.6, volume = 750000\<rparr>]"

text \<open>A sector below every threshold, to have an entry of the "Stable Sectors" list.\<close>

definition quiet_sector :: impact_item where
  "quiet_sector =
     \<lparr>sector = ''Utilities'', impact = 0.2, volatility = 0.1, sector_sentiment = 0.5, volume = 400000\<rparr>"

section \<open>Real-time analysis page (RealTimeAnalysis)\<close>

text \<open>
  One entry of \<^verbatim>\<open>news\<close> and one of \<^verbatim>\<open>marketData\<close>. The fields \<^verbatim>\<open>id\<close>,
  \<^verbatim>\<open>region\<close> and \<^verbatim>\<open>value\<close> of the source are written \<open>news_id\<close>,
  \<open>news_region\<close> and \<open>price_value\<close>.
\<close>

record news_item =
  news_id :: nat
  title :: string
  source :: string
  published_at :: string
  summary :: string
  content :: string
  sentiment :: number
  news_region :: string

record market_item =
  symbol :: string
  price_value :: number
  change :: number
  timestamp :: string

text \<open>
  \<^verbatim>\<open>
  const getSentimentColor = (sentiment) => {
    if (sentiment > 0.3) return 'text-success-600';
    if (sentiment < -0.3) return 'text-danger-600';
    return 'text-gray-600';
  };
  const getSentimentIcon = (sentiment) => {
    if (sentiment > 0.3) return <CheckCircle ... />;
    if (sentiment < -0.3) return <AlertTriangle ... />;
    return <Clock ... />;
  };
  \<close>
\<close>

datatype icon = CheckCircle | AlertTriangle | Clock

definition getSentimentColor :: "number \<Rightarrow> string" where
  "getSentimentColor s =
     (if s > 0.3 then ''text-success-600''
      else if s < - 0.3 then ''text-danger-600''
      else ''text-gray-600'')"

definition getSentimentIcon :: "number \<Rightarrow> icon" where
  "getSentimentIcon s =
     (if s > 0.3 then CheckCircle else if s < - 0.3 then AlertTriangle else Clock)"

text \<open>The demonstration data that \<^verbatim>\<open>fetchData\<close> writes in its \<^verbatim>\<open>catch\<close> block.\<close>

definition mock_news :: "news_item list" where
  "mock_news =
     [\<lparr>news_id = 1,
       title = ''New trade agreement between US and EU announced'',
       source = ''Reuters'',
       published_at = ''2024-01-15T10:30:00Z'',
       summary = ''Major breakthrough in transatlantic trade relations...'',
       content = ''The United States and European Union have announced a new comprehensive trade agreement...'',
       sentiment = 0.8,
       news_region = ''North America''\<rparr>,
      \<lparr>news_id = 2,
       title = ''Tensions rise in South China Sea'',
       source = ''BBC News'',
       published_at = ''2024-01-15T09:15:00Z'',
       summary = ''Regional tensions escalate as multiple nations assert territorial claims...'',
       content = ''Recent developments in the South China Sea have raised concerns...'',
       sentiment = - 0.6,
       news_region = ''Asia-Pacific''\<rparr>,
      \<lparr>news_id = 3,
       title = ''Energy prices stabilize in European markets'',
       source = ''Financial Times'',
       published_at = ''2024-01-15T08:45:00Z'',
       summary = ''Positive developments in energy supply chains...'',
       content = ''European energy markets show signs of stabilization...'',
       sentiment = 0.4,
       news_region = ''Europe''\<rparr>]"

definition mock_market :: "market_item list" where
  "mock_market =
     [\<lparr>symbol = ''AAPL'', price_value = 150.25, change = 2.5, timestamp = ''2024-01-15T10:00:00Z''\<rparr>,
      \<lparr>symbol = ''GOOGL'', price_value = 2750.80, change = - 1.2, timestamp = ''2024-01-15T10:00:00Z''\<rparr>,
      \<lparr>symbol = ''MSFT'', price_value = 380.45, change = 1.8, timestamp = ''2024-01-15T10:00:00Z''\<rparr>,
      \<lparr>symbol = ''XOM'', price_value = 95.30, change = 0.5, timestamp = ''2024-01-15T10:00:00Z''\<rparr>,
      \<lparr>symbol = ''JPM'', price_value = 145.75, change = - 0.8, timestamp = ''2024-01-15T10:00:00Z''\<rparr>]"

text \<open>
  The outcome of one request of \<^verbatim>\<open>newsAPI\<close> or \<^verbatim>\<open>marketAPI\<close>: the promise is
  rejected (\<open>Inl\<close>), or it resolves to a response whose \<^verbatim>\<open>data\<close> field is a list
  or is missing (\<open>None\<close>, which \<^verbatim>\<open>res.data || []\<close> reads as the empty list).
\<close>

datatype fetch_error = RequestFailed

type_synonym 'a response = "fetch_error + 'a list option"

definition data_or_empty :: "'a list option \<Rightarrow> 'a list" where
  "data_or_empty d = (case d of None \<Rightarrow> [] | Some xs \<Rightarrow> xs)"

text \<open>
  The part of the component's state that \<^verbatim>\<open>fetchData\<close> writes, and the messages it
  hands to \<^verbatim>\<open>toast.error\<close> and to \<^verbatim>\<open>console.error\<close> (the message only: the
  error object printed after it is the rejected request's). The state has no field that
  tells fetched data from demonstration data.
\<close>

record rt_state =
  news :: "news_item list"
  marketData :: "market_item list"
  loading :: bool
  toasts :: "string list"
  console :: "string list"

text \<open>
  \<^verbatim>\<open>
  const fetchData = async () => {
    try {
      setLoading(true);
      const [newsRes, marketRes] = await Promise.all([
        newsAPI.getLatestNews(selectedRegions),
        marketAPI.getMarketData(selectedSectors.map(s => s.toUpperCase()))
      ]);
      setNews(newsRes.data || []);
      setMarketData(marketRes.data || []);
    } catch (error) {
      console.error('Error fetching data:', error);
      toast.error('Failed to fetch real-time data');
      // Mock data for demonstration
      setNews([ ... ]);
      setMarketData([ ... ]);
    } finally {
      setLoading(false);
    }
  };
  \<close>
  \<^verbatim>\<open>Promise.all\<close> resolves when both requests do and is rejected as soon as one is,
  so the \<^verbatim>\<open>try\<close> block finishes only in the first case below.
\<close>

definition fetchData :: "rt_state \<Rightarrow> news_item response \<Rightarrow> market_item response \<Rightarrow> rt_state" where
  "fetchData st newsRes marketRes =
     (let st1 = st\<lparr>loading := True\<rparr>;
          st2 = (case (newsRes, marketRes) of
                   (Inr newsData, Inr marketDataRes) \<Rightarrow>
                     st1\<lparr>news := data_or_empty newsData,
                         marketData := data_or_empty marketDataRes\<rparr>
                 | _ \<Rightarrow>
                     st1\<lparr>console := console st1 @ [''Error fetching data:''],
                         toasts := toasts st1 @ [''Failed to fetch real-time data''],
                         news := mock_news,
                         marketData := mock_market\<rparr>)
      in st2\<lparr>loading := False\<rparr>)"

text \<open>
  A state before the first request and one market quote as a backend may deliver it,
  the inputs of the examples below.
\<close>

definition initial_state :: rt_state where
  "initial_state =
     \<lparr>news = [], marketData = [], loading = False, toasts = [], console = []\<rparr>"

definition live_quote :: market_item where
  "live_quote =
     \<lparr>symbol = ''TSLA'', price_value = 201.5, change = 1.1, timestamp = ''2024-02-01T10:00:00Z''\<rparr>"

section \<open>Historical analysis page (HistoricalAnalysis)\<close>

text \<open>
  One entry of \<^verbatim>\<open>historicalData\<close>:
  \<^verbatim>\<open>{ date: '2024-01-01', positive: 65, negative: 20, neutral: 15, total: 100 }\<close>
\<close>

record history_item =
  date :: string
  positive :: number
  negative :: number
  neutral :: number
  total :: number

text \<open>
  The card adds and divides, so its numbers are modelled as JavaScript has them: a
  finite double (by its value), \<^verbatim>\<open>NaN\<close>, or one of the two infinities. Every
  operation on finite doubles computes the exact result and rounds it to a double
  (IEEE 754: to nearest, ties to even, beyond the largest double to an infinity). That
  rounding is the argument \<open>rd\<close> of the functions below, and \<open>round_double\<close> is
  the one of JavaScript. A division by zero does not throw in JavaScript: \<^verbatim>\<open>0 / 0\<close>
  is \<^verbatim>\<open>NaN\<close> and \<^verbatim>\<open>x / 0\<close> is an infinity. The sign of a zero plays no part in
  what the card shows and is not modelled.
\<close>

datatype jsnum = Finite rat | NaN | PosInfinity | NegInfinity

type_synonym rounding = "rat \<Rightarrow> jsnum"

text \<open>
  The rounding of IEEE 754 binary64. For \<open>a > 0\<close>, \<open>floor_log2 a\<close> is the exponent
  \<open>e\<close> with \<open>2 ^ e \<le> a < 2 ^ (e + 1)\<close>. A double near \<open>a\<close> is a multiple \<open>m * 2 ^ k\<close>
  of the unit \<open>2 ^ k\<close>, where \<open>k = e - 52\<close> (53 significant bits) and never less than
  -1074 (the subnormal numbers); \<open>m\<close> is \<open>a / 2 ^ k\<close> rounded to the nearest integer,
  a half to the even one. Then \<open>m \<le> 2 ^ 53\<close>, and \<open>m * 2 ^ k\<close> is beyond the largest
  double, \<open>(2 ^ 53 - 1) * 2 ^ 971\<close>, exactly when \<open>k > 971\<close>, or \<open>k = 971\<close> and
  \<open>m = 2 ^ 53\<close>.
\<close>

definition floor_log2 :: "rat \<Rightarrow> int" where
  "floor_log2 a = (if a \<ge> 1 then bitlen \<lfloor>a\<rfloor> - 1 else - bitlen (\<lceil>1 / a\<rceil> - 1))"

definition round_half_even :: "rat \<Rightarrow> int" where
  "round_half_even y =
     (let f = \<lfloor>y\<rfloor>; r = y - of_int f
      in if r < 1 / 2 then f else if r > 1 / 2 then f + 1 else if even f then f else f + 1)"

definition round_double :: rounding where
  "round_double x =
     (if x = 0 then Finite 0
      else
        (let a = \<bar>x\<bar>;
             k = max (floor_log2 a - 52) (- 1074);
             m = round_half_even (a / 2 powi k)
         in if k > 971 \<or> (k = 971 \<and> m \<ge> 2 ^ 53)
            then (if x > 0 then PosInfinity else NegInfinity)
            else Finite (if x > 0 then of_int m * 2 powi k else - (of_int m * 2 powi k))))"

text \<open>\<^verbatim>\<open>a + b\<close> on numbers.\<close>

fun js_add :: "rounding \<Rightarrow> jsnum \<Rightarrow> jsnum \<Rightarrow> jsnum" where
  "js_add rd (Finite a) (Finite b) = rd (a + b)"
| "js_add rd NaN b = NaN"
| "js_add rd a NaN = NaN"
| "js_add rd PosInfinity NegInfinity = NaN"
| "js_add rd NegInfinity PosInfinity = NaN"
| "js_add rd PosInfinity b = PosInfinity"
| "js_add rd a PosInfinity = PosInfinity"
| "js_add rd NegInfinity b = NegInfinity"
| "js_add rd a NegInfinity = NegInfinity"

text \<open>\<^verbatim>\<open>a / xs.length\<close>: the divisor is the length of an array, 0 included.\<close>

fun js_div_length :: "rounding \<Rightarrow> jsnum \<Rightarrow> nat \<Rightarrow> jsnum" where
  "js_div_length rd (Finite a) n =
     (if n = 0
      then (if a = 0 then NaN else if a > 0 then PosInfinity else NegInfinity)
      else rd (a / of_nat n))"
| "js_div_length rd NaN n = NaN"
| "js_div_length rd PosInfinity n = PosInfinity"
| "js_div_length rd NegInfinity n = NegInfinity"

text \<open>
  \<^verbatim>\<open>Math.round\<close>: the nearest integer, a half towards plus infinity; \<^verbatim>\<open>NaN\<close> and
  the infinities are returned as they are.
\<close>

fun Math_round :: "jsnum \<Rightarrow> jsnum" where
  "Math_round (Finite a) = Finite (of_int \<lfloor>a + 1 / 2\<rfloor>)"
| "Math_round NaN = NaN"
| "Math_round PosInfinity = PosInfinity"
| "Math_round NegInfinity = NegInfinity"

text \<open>
  The "News Summary" card. The two shares are the numbers printed before the
  \<^verbatim>\<open>'%'\<close> sign: \<open>Finite 0\<close> stands for the text \<^verbatim>\<open>'0%'\<close> and \<open>NaN\<close> for
  \<^verbatim>\<open>'NaN%'\<close>.
  \<^verbatim>\<open>
  historicalData.length > 0 ?
    historicalData.reduce((sum, item) => sum + item.total, 0) : 0
  historicalData.length > 0 ?
    Math.round(historicalData.reduce((sum, item) => sum + item.positive, 0)
               / historicalData.length) + '%' : '0%'
  historicalData.length > 0 ?
    Math.round(historicalData.reduce((sum, item) => sum + item.negative, 0)
               / historicalData.length) + '%' : '0%'
  \<close>
\<close>

definition totalArticles :: "rounding \<Rightarrow> history_item list \<Rightarrow> jsnum" where
  "totalArticles rd historicalData =
     (if length historicalData > 0
      then foldl (\<lambda>sum item. js_add rd sum (Finite (total item))) (Finite 0) historicalData
      else Finite 0)"

definition positivePercent :: "rounding \<Rightarrow> history_item list \<Rightarrow> jsnum" where
  "positivePercent rd historicalData =
     (if length historicalData > 0
      then Math_round
             (js_div_length rd
                (foldl (\<lambda>sum item. js_add rd sum (Finite (positive item))) (Finite 0)
                   historicalData)
                (length historicalData))
      else Finite 0)"

definition negativePercent :: "rounding \<Rightarrow> history_item list \<Rightarrow> jsnum" where
  "negativePercent rd historicalData =
     (if length historicalData > 0
      then Math_round
             (js_div_length rd
                (foldl (\<lambda>sum item. js_add rd sum (Finite (negative item))) (Finite 0)
                   historicalData)
                (length historicalData))
      else Finite 0)"

text \<open>
  The expression in the first branch of the two shares, on the list of the values it
  adds up:
  \<^verbatim>\<open>Math.round(values.reduce((sum, v) => sum + v, 0) / values.length)\<close>
\<close>

definition roundedMean :: "rounding \<Rightarrow> number list \<Rightarrow> jsnum" where
  "roundedMean rd values =
     Math_round
       (js_div_length rd (foldl (\<lambda>sum v. js_add rd sum (Finite v)) (Finite 0) values)
          (length values))"

text \<open>
  Three days whose positive shares are the doubles written \<^verbatim>\<open>1.4\<close>, \<^verbatim>\<open>2.8\<close> and
  \<^verbatim>\<open>3.3\<close>: the mean of the three decimals is 2.5, the mean that JavaScript computes
  from the doubles is just below it.
\<close>

definition three_days :: "history_item list" where
  "three_days =
     [\<lparr>date = ''2024-01-01'', positive = 3152519739159347 / 2 ^ 51, negative = 20,
       neutral = 15, total = 100\<rparr>,
      \<lparr>date = ''2024-01-02'', positive = 3152519739159347 / 2 ^ 50, negative = 25,
       neutral = 17, total = 100\<rparr>,
      \<lparr>date = ''2024-01-03'', positive = 3715469692580659 / 2 ^ 50, negative = 18,
       neutral = 10, total = 100\<rparr>]"

section \<open>Scoring engine behind the pages\<close>

text \<open>
  The pages read their scores from the Python backend (\<^verbatim>\<open>api.py\<close>,
  \<^verbatim>\<open>risk_assessor.py\<close>, \<^verbatim>\<open>analyzer.py\<close>), which is not among the source files.
  The definitions of this section follow the specification's description of it.
\<close>

subsection \<open>SentimentAggregator\<close>

record sentiment_summary =
  positiveShare :: number
  negativeShare :: number
  neutralShare :: number
  meanSentiment :: number

record tally =
  n_positive :: nat
  n_negative :: nat
  n_neutral :: nat
  sentiment_sum :: number

text \<open>
  Modelled from the spec: the SentimentAggregator (section 4.1), whose code is in the
  backend. One pass over the items counts those with sentiment above 0.3, those below
  -0.3 and the others, and adds the sentiments up.
\<close>

fun count_item :: "tally \<Rightarrow> news_item \<Rightarrow> tally" where
  "count_item acc item =
     (if sentiment item > 0.3
        then acc\<lparr>n_positive := n_positive acc + 1,
                 sentiment_sum := sentiment_sum acc + sentiment item\<rparr>
      else if sentiment item < - 0.3
        then acc\<lparr>n_negative := n_negative acc + 1,
                 sentiment_sum := sentiment_sum acc + sentiment item\<rparr>
      else acc\<lparr>n_neutral := n_neutral acc + 1,
               sentiment_sum := sentiment_sum acc + sentiment item\<rparr>)"

definition empty_tally :: tally where
  "empty_tally = \<lparr>n_positive = 0, n_negative = 0, n_neutral = 0, sentiment_sum = 0\<rparr>"

datatype aggregator_error = DivisionByZero

text \<open>
  Modelled from the spec: the division of the SentimentAggregator (section 4.1) by the
  item count. The backend is Python, where a division by zero raises
  \<^verbatim>\<open>ZeroDivisionError\<close>; the failure is a value here.
\<close>

definition divide_by_count :: "number \<Rightarrow> nat \<Rightarrow> aggregator_error + number" where
  "divide_by_count x n = (if n = 0 then Inl DivisionByZero else Inr (x / of_nat n))"

text \<open>
  Modelled from the spec: the SentimentAggregator's normalisation (section 4.1): the
  three counts and the sum of the sentiments, each divided by the number of items. It
  fails as soon as one division does.
\<close>

definition normalise :: "tally \<Rightarrow> nat \<Rightarrow> aggregator_error + sentiment_summary" where
  "normalise t n =
     (case divide_by_count (of_nat (n_positive t)) n of
        Inl e \<Rightarrow> Inl e
      | Inr p \<Rightarrow>
     (case divide_by_count (of_nat (n_negative t)) n of
        Inl e \<Rightarrow> Inl e
      | Inr q \<Rightarrow>
     (case divide_by_count (of_nat (n_neutral t)) n of
        Inl e \<Rightarrow> Inl e
      | Inr u \<Rightarrow>
     (case divide_by_count (sentiment_sum t) n of
        Inl e \<Rightarrow> Inl e
      | Inr m \<Rightarrow>
          Inr \<lparr>positiveShare = p, negativeShare = q, neutralShare = u,
               meanSentiment = m\<rparr>))))"

text \<open>
  Modelled from the spec: the SentimentAggregator (section 4.1): on empty input every
  field is 0 and nothing is divided; otherwise the tally of the items is normalised by
  their number.
\<close>

definition SentimentAggregator :: "news_item list \<Rightarrow> aggregator_error + sentiment_summary" where
  "SentimentAggregator items =
     (if items = []
      then Inr \<lparr>positiveShare = 0, negativeShare = 0, neutralShare = 0, meanSentiment = 0\<rparr>
      else normalise (foldl count_item empty_tally items) (length items))"

subsection \<open>RegionRiskScorer\<close>

datatype risk_factor =
  political_stability | economic_conditions | diplomatic_relations
  | regional_conflicts | trade_relations | regulatory_environment

definition risk_factors :: "risk_factor list" where
  "risk_factors =
     [political_stability, economic_conditions, diplomatic_relations,
      regional_conflicts, trade_relations, regulatory_environment]"

text \<open>
  Modelled from the spec: the fixed RiskFactorWeights (section 3; DOCUMENTATION.md,
  "Risk Factors", lists the same six percentages).
\<close>

fun RiskFactorWeights :: "risk_factor \<Rightarrow> number" where
  "RiskFactorWeights political_stability = 0.25"
| "RiskFactorWeights economic_conditions = 0.20"
| "RiskFactorWeights diplomatic_relations = 0.20"
| "RiskFactorWeights regional_conflicts = 0.15"
| "RiskFactorWeights trade_relations = 0.10"
| "RiskFactorWeights regulatory_environment = 0.10"

datatype scorer_error = ConfigurationError | ValidationError

definition clamp01 :: "number \<Rightarrow> number" where
  "clamp01 x = (if x < 0 then 0 else if x > 1 then 1 else x)"

definition raw_score :: "(risk_factor \<rightharpoonup> number) \<Rightarrow> risk_factor \<Rightarrow> number" where
  "raw_score rawScores f = (case rawScores f of None \<Rightarrow> 0 | Some v \<Rightarrow> v)"

text \<open>
  Modelled from the spec: the RegionRiskScorer's score of one region (section 4.2).
  Weights that do not sum to 1.0 within 1e-6 are a ConfigurationError, a raw score
  outside [0,1] is a ValidationError, a missing factor counts as 0, and the score is the
  weighted sum over the factors, clamped to [0,1].
\<close>

definition RegionRiskScorer ::
  "(risk_factor \<Rightarrow> number) \<Rightarrow> (risk_factor \<rightharpoonup> number) \<Rightarrow> scorer_error + number" where
  "RegionRiskScorer weights rawScores =
     (if \<bar>sum_list (map weights risk_factors) - 1\<bar> > 1 / 1000000
        then Inl ConfigurationError
      else if list_ex (\<lambda>f. raw_score rawScores f < 0 \<or> raw_score rawScores f > 1) risk_factors
        then Inl ValidationError
      else Inr (clamp01 (sum_list (map (\<lambda>f. weights f * raw_score rawScores f) risk_factors))))"

text \<open>The raw scores of the specification's worked example (section 8).\<close>

definition example_rawScores :: "risk_factor \<rightharpoonup> number" where
  "example_rawScores =
     [political_stability \<mapsto> 0.9, economic_conditions \<mapsto> 0.5,
      diplomatic_relations \<mapsto> 0.6, regional_conflicts \<mapsto> 0.8,
      trade_relations \<mapsto> 0.3, regulatory_environment \<mapsto> 0.4]"

subsection \<open>TrendClassifier\<close>

datatype trend_label = Increasing | Decreasing | Stable

definition default_threshold :: number where
  "default_threshold = 0.03"

text \<open>
  Modelled from the spec: the TrendClassifier's rule for one delta (section 4.4), its
  three cases in the order the specification gives them. With a positive threshold
  they cover every delta; the last line is reached only with a threshold of 0 or less
  and a delta of 0, about which the specification says nothing.
\<close>

definition classify_delta :: "number \<Rightarrow> number \<Rightarrow> trend_label" where
  "classify_delta t delta =
     (if \<bar>delta\<bar> < t then Stable
      else if delta > 0 then Increasing
      else if delta < 0 then Decreasing
      else Stable)"

text \<open>
  Modelled from the spec: the TrendClassifier (section 4.4) on a sequence of snapshots,
  oldest first: the delta is the newest snapshot minus the one before it; a sequence with
  less than two snapshots has no delta and is stable by convention.
\<close>

fun TrendClassifier :: "number \<Rightarrow> number list \<Rightarrow> trend_label" where
  "TrendClassifier t [previous, latest] = classify_delta t (latest - previous)"
| "TrendClassifier t (older # previous # latest # rest) =
     TrendClassifier t (previous # latest # rest)"
| "TrendClassifier t [snapshot] = Stable"
| "TrendClassifier t [] = Stable"

subsection \<open>AnalysisOrchestrator\<close>

datatype risk_level = Low | Medium | High

fun level_rank :: "risk_level \<Rightarrow> nat" where
  "level_rank Low = 0"
| "level_rank Medium = 1"
| "level_rank High = 2"

definition max_level :: "risk_level \<Rightarrow> risk_level \<Rightarrow> risk_level" where
  "max_level a b = (if level_rank a < level_rank b then b else a)"

text \<open>
  Modelled from the spec: the global risk level of an AnalysisResult (section 4.5), the
  maximum of the requested regions' levels in the order Low, Medium, High. A request
  with no region has no level.
\<close>

fun globalRiskLevel :: "risk_level list \<Rightarrow> risk_level option" where
  "globalRiskLevel [] = None"
| "globalRiskLevel (l # ls) = Some (foldl max_level l ls)"

section \<open>Properties of the risk assessment page\<close>

lemma getRiskLevel_Low: "(getRiskLevel r = ''Low'') = (r < 0.3)"
  by (simp add: getRiskLevel_def)

lemma getRiskLevel_Medium: "(getRiskLevel r = ''Medium'') = (0.3 \<le> r \<and> r < 0.6)"
  by (auto simp add: getRiskLevel_def)

lemma getRiskLevel_High: "(getRiskLevel r = ''High'') = (0.6 \<le> r)"
  by (auto simp add: getRiskLevel_def)

lemma Dashboard_getRiskLevel_eq: "Dashboard_getRiskLevel r = getRiskLevel r"
  by (simp add: Dashboard_getRiskLevel_def getRiskLevel_def)

text \<open>
  C1: for every risk score in [0,1] the level is Low below 0.4, Medium from 0.4 up to
  but not including 0.7, and High from 0.7 on. DOCUMENTATION.md ("Risk Levels") gives
  the same two boundaries. \<^verbatim>\<open>getRiskLevel\<close>, on both pages, has its boundaries at
  0.3 and 0.6 instead: a score of 0.35 is below 0.4 and labelled Medium, a score of
  0.65 is below 0.7 and labelled High.
\<close>

theorem getRiskLevel_between_boundaries:
  "(0.35 :: number) < 0.4 \<and> getRiskLevel 0.35 = ''Medium''
   \<and> Dashboard_getRiskLevel 0.35 = ''Medium''
   \<and> (0.65 :: number) < 0.7 \<and> getRiskLevel 0.65 = ''High''
   \<and> Dashboard_getRiskLevel 0.65 = ''High''"
  by (simp add: getRiskLevel_def Dashboard_getRiskLevel_def)

text \<open>
  C3: with the fixed weights and the raw scores 0.9, 0.5, 0.6, 0.8, 0.3, 0.4 the
  weighted sum is exactly 0.635 and the level is Medium. The sum is 0.635;
  \<^verbatim>\<open>getRiskLevel\<close> labels that score High, since its upper boundary is 0.6.
\<close>

theorem worked_example_score_and_level:
  "RegionRiskScorer RiskFactorWeights example_rawScores = Inr 0.635
   \<and> getRiskLevel 0.635 = ''High''"
  by (simp add: RegionRiskScorer_def risk_factors_def raw_score_def example_rawScores_def
      clamp01_def getRiskLevel_def)

lemma bucket_split:
  "length (filter (\<lambda>r. risk r < 0.3) xs)
     + length (filter (\<lambda>r. risk r \<ge> 0.3 \<and> risk r < 0.6) xs)
     + length (filter (\<lambda>r. risk r \<ge> 0.6) xs) = length xs"
  by (induction xs) auto

text \<open>
  C9: for every list of region risk profiles the three counters of the risk summary
  (risk below 0.3; from 0.3 and below 0.6; from 0.6) add up to the length of the list,
  and each counter is the number of entries that \<^verbatim>\<open>getRiskLevel\<close> labels Low, Medium
  and High respectively.
\<close>

theorem risk_summary_partition:
  "lowRiskRegions riskData + mediumRiskRegions riskData + highRiskRegions riskData
     = length riskData
   \<and> lowRiskRegions riskData
       = length (filter (\<lambda>r. getRiskLevel (risk r) = ''Low'') riskData)
   \<and> mediumRiskRegions riskData
       = length (filter (\<lambda>r. getRiskLevel (risk r) = ''Medium'') riskData)
   \<and> highRiskRegions riskData
       = length (filter (\<lambda>r. getRiskLevel (risk r) = ''High'') riskData)"
proof -
  have total: "lowRiskRegions riskData + mediumRiskRegions riskData + highRiskRegions riskData
      = length riskData"
    unfolding lowRiskRegions_def mediumRiskRegions_def highRiskRegions_def
    by (rule bucket_split)
  have low: "lowRiskRegions riskData
      = length (filter (\<lambda>r. getRiskLevel (risk r) = ''Low'') riskData)"
    unfolding lowRiskRegions_def getRiskLevel_Low ..
  have medium: "mediumRiskRegions riskData
      = length (filter (\<lambda>r. getRiskLevel (risk r) = ''Medium'') riskData)"
    unfolding mediumRiskRegions_def getRiskLevel_Medium ..
  have high: "highRiskRegions riskData
      = length (filter (\<lambda>r. getRiskLevel (risk r) = ''High'') riskData)"
    unfolding highRiskRegions_def getRiskLevel_High ..
  from total low medium high show ?thesis by blast
qed

section \<open>Properties of the market impact page\<close>

text \<open>
  C4: for every sector impact value the recommendation is "Monitor Closely" exactly
  above 0.7, "Watch for Changes" exactly above 0.4 and up to 0.7, and "Stable"
  otherwise, that is up to 0.4. \<^verbatim>\<open>getImpactLevel\<close> draws the same lines.
\<close>

theorem recommendation_thresholds:
  "(recommendation i = ''Monitor Closely'') = (i > 0.7)
   \<and> (recommendation i = ''Watch for Changes'') = (0.4 < i \<and> i \<le> 0.7)
   \<and> (recommendation i = ''Stable'') = (i \<le> 0.4)
   \<and> (getImpactLevel i = ''High'') = (recommendation i = ''Monitor Closely'')
   \<and> (getImpactLevel i = ''Medium'') = (recommendation i = ''Watch for Changes'')
   \<and> (getImpactLevel i = ''Low'') = (recommendation i = ''Stable'')"
  by (auto simp add: recommendation_def getImpactLevel_def)

text \<open>
  C10: for every list of sector impact profiles the "High Impact Sectors" list (impact
  above 0.7) and the "Stable Sectors" list (impact below 0.4) have no entry in common,
  and an entry whose impact lies in the closed interval from 0.4 to 0.7 is in neither.
\<close>

theorem investment_lists_disjoint:
  "set (highImpactSectors impactData) \<inter> set (stableSectors impactData) = {}
   \<and> (\<forall>item \<in> set impactData. 0.4 \<le> impact item \<and> impact item \<le> 0.7 \<longrightarrow>
         item \<notin> set (highImpactSectors impactData)
         \<and> item \<notin> set (stableSectors impactData))"
  by (auto simp add: highImpactSectors_def stableSectors_def)

text \<open>
  On the page's demonstration data with one quiet sector added: Healthcare (0.4) and
  Manufacturing (0.7) are on the two ends of the interval and in neither list.
\<close>

theorem investment_lists_disjoint_witness:
  "set (highImpactSectors (quiet_sector # mock_impact))
     \<inter> set (stableSectors (quiet_sector # mock_impact)) = {}
   \<and> map sector (highImpactSectors (quiet_sector # mock_impact)) = [''Technology'', ''Finance'']
   \<and> map sector (stableSectors (quiet_sector # mock_impact)) = [''Utilities'']
   \<and> mock_impact ! 3 \<in> set (quiet_sector # mock_impact)
   \<and> impact (mock_impact ! 3) = 0.4
   \<and> mock_impact ! 3 \<notin> set (highImpactSectors (quiet_sector # mock_impact))
   \<and> mock_impact ! 3 \<notin> set (stableSectors (quiet_sector # mock_impact))"
proof -
  have lists: "map sector (highImpactSectors (quiet_sector # mock_impact)) = [''Technology'', ''Finance'']"
    "map sector (stableSectors (quiet_sector # mock_impact)) = [''Utilities'']"
    by (simp_all add: highImpactSectors_def stableSectors_def quiet_sector_def mock_impact_def)
  have healthcare: "mock_impact ! 3 \<in> set (quiet_sector # mock_impact)"
    "impact (mock_impact ! 3) = 0.4"
    by (simp_all add: mock_impact_def)
  note both = investment_lists_disjoint [of "quiet_sector # mock_impact"]
  from both have disjoint: "set (highImpactSectors (quiet_sector # mock_impact))
          \<inter> set (stableSectors (quiet_sector # mock_impact)) = {}"
    by (rule conjunct1)
  from both have "\<forall>item \<in> set (quiet_sector # mock_impact).
      0.4 \<le> impact item \<and> impact item \<le> 0.7 \<longrightarrow>
        item \<notin> set (highImpactSectors (quiet_sector # mock_impact))
        \<and> item \<notin> set (stableSectors (quiet_sector # mock_impact))"
    by (rule conjunct2)
  from this healthcare(1)
  have "0.4 \<le> impact (mock_impact ! 3) \<and> impact (mock_impact ! 3) \<le> 0.7 \<longrightarrow>
      mock_impact ! 3 \<notin> set (highImpactSectors (quiet_sector # mock_impact))
      \<and> mock_impact ! 3 \<notin> set (stableSectors (quiet_sector # mock_impact))"
    by (rule bspec)
  moreover have "0.4 \<le> impact (mock_impact ! 3) \<and> impact (mock_impact ! 3) \<le> 0.7"
    unfolding healthcare(2) by simp
  ultimately have "mock_impact ! 3 \<notin> set (highImpactSectors (quiet_sector # mock_impact))
      \<and> mock_impact ! 3 \<notin> set (stableSectors (quiet_sector # mock_impact))"
    by (rule mp)
  with disjoint lists healthcare show ?thesis by blast
qed

section \<open>Properties of the real-time analysis page\<close>

lemma fetchData_both_delivered:
  "fetchData st (Inr newsData) (Inr marketDataRes)
     = st\<lparr>news := data_or_empty newsData, marketData := data_or_empty marketDataRes,
           loading := False\<rparr>"
  by (simp add: fetchData_def)

lemma fetchData_news_failed:
  "fetchData st (Inl e) marketRes
     = st\<lparr>news := mock_news, marketData := mock_market, loading := False,
           toasts := toasts st @ [''Failed to fetch real-time data''],
           console := console st @ [''Error fetching data:'']\<rparr>"
  by (simp add: fetchData_def)

lemma fetchData_market_failed:
  "fetchData st newsRes (Inl e)
     = st\<lparr>news := mock_news, marketData := mock_market, loading := False,
           toasts := toasts st @ [''Failed to fetch real-time data''],
           console := console st @ [''Error fetching data:'']\<rparr>"
  by (cases newsRes) (simp_all add: fetchData_def)

text \<open>
  C2, as stated: when one collaborator (news or market) fails, the result is computed
  from the data that did arrive, the failed source contributing an empty set, and is
  flagged as degraded; fabricated data is never substituted.
  With the news request rejected and the market request delivering one quote,
  \<^verbatim>\<open>fetchData\<close> leaves neither an empty news list nor the delivered quote: both lists
  hold the demonstration data.
\<close>

theorem fetchData_degraded_counterexample:
  "\<not> (news (fetchData initial_state (Inl RequestFailed) (Inr (Some [live_quote]))) = []
       \<and> marketData (fetchData initial_state (Inl RequestFailed) (Inr (Some [live_quote])))
           = [live_quote])
   \<and> news (fetchData initial_state (Inl RequestFailed) (Inr (Some [live_quote]))) = mock_news
   \<and> marketData (fetchData initial_state (Inl RequestFailed) (Inr (Some [live_quote])))
       = mock_market"
  by (simp add: fetchData_news_failed mock_news_def)

text \<open>
  C2, amended: when the news request or the market request fails, \<^verbatim>\<open>fetchData\<close>
  drops whatever the other request delivered, sets both the news list and the market
  data list to the fixed demonstration data, reports the failure on the console and
  with the error toast "Failed to fetch real-time data", and ends with \<^verbatim>\<open>loading\<close>
  false; nothing else of the state changes, and the state has no flag that marks the
  data as substituted.
\<close>

theorem fetchData_failure_substitutes_mock:
  "isl newsRes \<or> isl marketRes \<Longrightarrow>
   fetchData st newsRes marketRes
     = st\<lparr>news := mock_news, marketData := mock_market, loading := False,
           toasts := toasts st @ [''Failed to fetch real-time data''],
           console := console st @ [''Error fetching data:'']\<rparr>"
  by (cases newsRes; cases marketRes)
    (simp_all add: fetchData_news_failed fetchData_market_failed)

theorem fetchData_failure_substitutes_mock_witness:
  "isl (Inl RequestFailed :: market_item response)
   \<and> fetchData initial_state (Inr None) (Inl RequestFailed)
       = \<lparr>news = mock_news, marketData = mock_market, loading = False,
          toasts = [''Failed to fetch real-time data''],
          console = [''Error fetching data:'']\<rparr>"
  using fetchData_failure_substitutes_mock [of "Inr None" "Inl RequestFailed" initial_state]
  by (simp add: initial_state_def)

lemma getSentimentIcon_CheckCircle: "(getSentimentIcon s = CheckCircle) = (s > 0.3)"
  by (simp add: getSentimentIcon_def)

lemma getSentimentIcon_AlertTriangle: "(getSentimentIcon s = AlertTriangle) = (s < - 0.3)"
  by (auto simp add: getSentimentIcon_def)

lemma getSentimentIcon_Clock: "(getSentimentIcon s = Clock) = (- 0.3 \<le> s \<and> s \<le> 0.3)"
  by (auto simp add: getSentimentIcon_def)

lemma getSentimentColor_icon:
  "(getSentimentColor s = ''text-success-600'') = (getSentimentIcon s = CheckCircle)
   \<and> (getSentimentColor s = ''text-danger-600'') = (getSentimentIcon s = AlertTriangle)
   \<and> (getSentimentColor s = ''text-gray-600'') = (getSentimentIcon s = Clock)"
  by (simp add: getSentimentColor_def getSentimentIcon_def)

section \<open>Properties of the scoring engine\<close>

subsection \<open>SentimentAggregator\<close>

lemma foldl_count_item:
  "foldl count_item acc items =
     \<lparr>n_positive = n_positive acc + length (filter (\<lambda>i. sentiment i > 0.3) items),
      n_negative = n_negative acc
        + length (filter (\<lambda>i. \<not> sentiment i > 0.3 \<and> sentiment i < - 0.3) items),
      n_neutral = n_neutral acc
        + length (filter (\<lambda>i. \<not> sentiment i > 0.3 \<and> \<not> sentiment i < - 0.3) items),
      sentiment_sum = sentiment_sum acc + sum_list (map sentiment items)\<rparr>"
proof (induction items arbitrary: acc)
  case Nil
  show ?case by simp
next
  case (Cons item items)
  show ?case
    unfolding foldl_Cons Cons.IH
    by (simp del: count_item.simps add: count_item.simps[of acc item])
qed

lemma three_way_count:
  "length (filter P xs) + length (filter (\<lambda>x. \<not> P x \<and> Q x) xs)
     + length (filter (\<lambda>x. \<not> P x \<and> \<not> Q x) xs) = length xs"
  by (induction xs) auto

lemma normalise_positive_count:
  "0 < n \<Longrightarrow>
   normalise t n =
     Inr \<lparr>positiveShare = of_nat (n_positive t) / of_nat n,
          negativeShare = of_nat (n_negative t) / of_nat n,
          neutralShare = of_nat (n_neutral t) / of_nat n,
          meanSentiment = sentiment_sum t / of_nat n\<rparr>"
  by (simp add: normalise_def divide_by_count_def)

lemma normalise_zero_count: "normalise t 0 = Inl DivisionByZero"
  by (simp add: normalise_def divide_by_count_def)

lemma SentimentAggregator_nonempty:
  assumes "items \<noteq> []"
  shows "SentimentAggregator items =
     Inr \<lparr>positiveShare
            = of_nat (length (filter (\<lambda>i. sentiment i > 0.3) items)) / of_nat (length items),
          negativeShare
            = of_nat (length (filter (\<lambda>i. \<not> sentiment i > 0.3 \<and> sentiment i < - 0.3) items))
              / of_nat (length items),
          neutralShare
            = of_nat (length (filter (\<lambda>i. \<not> sentiment i > 0.3 \<and> \<not> sentiment i < - 0.3) items))
              / of_nat (length items),
          meanSentiment = sum_list (map sentiment items) / of_nat (length items)\<rparr>"
proof -
  from assms have "0 < length items" by simp
  then show ?thesis
    using assms
    by (simp add: SentimentAggregator_def normalise_positive_count foldl_count_item
        empty_tally_def)
qed

lemma SentimentAggregator_returns: "\<exists>r. SentimentAggregator items = Inr r"
proof (cases "items = []")
  case True
  then show ?thesis by (simp add: SentimentAggregator_def)
next
  case False
  then show ?thesis using SentimentAggregator_nonempty by blast
qed

lemma shares_sum:
  assumes "items \<noteq> []"
  shows "(of_nat (length (filter (\<lambda>i. sentiment i > 0.3) items)) :: rat) / of_nat (length items)
     + of_nat (length (filter (\<lambda>i. \<not> sentiment i > 0.3 \<and> sentiment i < - 0.3) items))
       / of_nat (length items)
     + of_nat (length (filter (\<lambda>i. \<not> sentiment i > 0.3 \<and> \<not> sentiment i < - 0.3) items))
       / of_nat (length items) = 1"
proof -
  let ?P = "\<lambda>i. sentiment i > 0.3" and ?Q = "\<lambda>i. sentiment i < - 0.3"
  have n: "(of_nat (length items) :: rat) \<noteq> 0" using assms by simp
  have "(of_nat (length (filter ?P items)) :: rat)
          + of_nat (length (filter (\<lambda>i. \<not> ?P i \<and> ?Q i) items))
          + of_nat (length (filter (\<lambda>i. \<not> ?P i \<and> \<not> ?Q i) items))
        = of_nat (length items)"
    unfolding of_nat_add[symmetric] three_way_count ..
  then show ?thesis
    unfolding add_divide_distrib[symmetric] using n by simp
qed

text \<open>
  C5: an item counts as positive exactly when its sentiment is above 0.3, as negative
  exactly when it is below -0.3 and as neutral otherwise (the classes that
  \<^verbatim>\<open>getSentimentIcon\<close> marks with its three icons), and for a non-empty input the
  aggregation returns a summary whose three shares are these counts divided by the
  number of items and sum to 1.
\<close>

theorem sentiment_shares:
  "(getSentimentIcon s = CheckCircle) = (s > 0.3)
   \<and> (getSentimentIcon s = AlertTriangle) = (s < - 0.3)
   \<and> (getSentimentIcon s = Clock) = (- 0.3 \<le> s \<and> s \<le> 0.3)
   \<and> (items \<noteq> [] \<longrightarrow>
        (\<exists>r. SentimentAggregator items = Inr r
          \<and> positiveShare r
              = of_nat (length (filter (\<lambda>i. getSentimentIcon (sentiment i) = CheckCircle) items))
                / of_nat (length items)
          \<and> negativeShare r
              = of_nat (length (filter (\<lambda>i. getSentimentIcon (sentiment i) = AlertTriangle) items))
                / of_nat (length items)
          \<and> neutralShare r
              = of_nat (length (filter (\<lambda>i. getSentimentIcon (sentiment i) = Clock) items))
                / of_nat (length items)
          \<and> positiveShare r + negativeShare r + neutralShare r = 1))"
proof -
  have neg: "(\<lambda>i. \<not> sentiment i > 0.3 \<and> sentiment i < - 0.3)
      = (\<lambda>i. getSentimentIcon (sentiment i) = AlertTriangle)"
    by (auto simp add: getSentimentIcon_AlertTriangle)
  have neu: "(\<lambda>i. \<not> sentiment i > 0.3 \<and> \<not> sentiment i < - 0.3)
      = (\<lambda>i. getSentimentIcon (sentiment i) = Clock)"
    by (auto simp add: getSentimentIcon_Clock)
  have pos: "(\<lambda>i. sentiment i > 0.3) = (\<lambda>i. getSentimentIcon (sentiment i) = CheckCircle)"
    by (simp add: getSentimentIcon_CheckCircle)
  have shares: "\<exists>r. SentimentAggregator items = Inr r
          \<and> positiveShare r
              = of_nat (length (filter (\<lambda>i. getSentimentIcon (sentiment i) = CheckCircle) items))
                / of_nat (length items)
          \<and> negativeShare r
              = of_nat (length (filter (\<lambda>i. getSentimentIcon (sentiment i) = AlertTriangle) items))
                / of_nat (length items)
          \<and> neutralShare r
              = of_nat (length (filter (\<lambda>i. getSentimentIcon (sentiment i) = Clock) items))
                / of_nat (length items)
          \<and> positiveShare r + negativeShare r + neutralShare r = 1" if "items \<noteq> []"
    using SentimentAggregator_nonempty[OF that] shares_sum[OF that] unfolding neg neu pos
    by simp
  from shares getSentimentIcon_CheckCircle[of s] getSentimentIcon_AlertTriangle[of s]
    getSentimentIcon_Clock[of s]
  show ?thesis by blast
qed

text \<open>
  On the three demonstration news items (sentiments 0.8, -0.6 and 0.4): two positive,
  one negative, none neutral.
\<close>

theorem sentiment_shares_witness:
  "mock_news \<noteq> []
   \<and> (\<exists>r. SentimentAggregator mock_news = Inr r
        \<and> positiveShare r = 2 / 3 \<and> negativeShare r = 1 / 3 \<and> neutralShare r = 0
        \<and> positiveShare r + negativeShare r + neutralShare r = 1)"
proof -
  have ne: "mock_news \<noteq> []" by (simp add: mock_news_def)
  with sentiment_shares [of 0 mock_news]
  obtain r where r: "SentimentAggregator mock_news = Inr r"
    and p: "positiveShare r
      = of_nat (length (filter (\<lambda>i. getSentimentIcon (sentiment i) = CheckCircle) mock_news))
        / of_nat (length mock_news)"
    and q: "negativeShare r
      = of_nat (length (filter (\<lambda>i. getSentimentIcon (sentiment i) = AlertTriangle) mock_news))
        / of_nat (length mock_news)"
    and u: "neutralShare r
      = of_nat (length (filter (\<lambda>i. getSentimentIcon (sentiment i) = Clock) mock_news))
        / of_nat (length mock_news)"
    and total: "positiveShare r + negativeShare r + neutralShare r = 1"
    by blast
  have "positiveShare r = 2 / 3" "negativeShare r = 1 / 3" "neutralShare r = 0"
    unfolding p q u by (simp_all add: mock_news_def getSentimentIcon_def)
  with ne r total show ?thesis by blast
qed

subsection \<open>Empty input\<close>

lemma roundedMean_empty: "roundedMean rd [] = NaN"
  by (simp add: roundedMean_def)

lemma positivePercent_nonempty:
  "historicalData \<noteq> [] \<Longrightarrow>
   positivePercent rd historicalData = roundedMean rd (map positive historicalData)"
  by (simp add: positivePercent_def roundedMean_def foldl_map)

lemma negativePercent_nonempty:
  "historicalData \<noteq> [] \<Longrightarrow>
   negativePercent rd historicalData = roundedMean rd (map negative historicalData)"
  by (simp add: negativePercent_def roundedMean_def foldl_map)

lemma round_double_literals:
  "round_double 1.4 = Finite (3152519739159347 / 2 ^ 51)"
  "round_double 2.8 = Finite (3152519739159347 / 2 ^ 50)"
  "round_double 3.3 = Finite (3715469692580659 / 2 ^ 50)"
  by code_simp+

text \<open>
  The doubles' mean of the three days is 2.4999999999999996 and the card shows 2%;
  the mean of the decimals 1.4, 2.8 and 3.3, computed exactly, is 2.5 and would be
  shown as 3%.
\<close>

lemma positivePercent_three_days:
  "positivePercent round_double three_days = Finite 2"
  "roundedMean Finite [1.4, 2.8, 3.3] = Finite 3"
  by code_simp+

text \<open>
  C7: on an empty sequence of news items the aggregation does not fail: it returns a
  summary, and the summary has a positive, a negative and a neutral share of 0 and a
  mean sentiment of 0. Nothing is divided by the zero item count: the normalisation
  that a non-empty input goes through fails on a count of 0. The aggregation returns a
  summary on every other input too. The "News Summary" card of the historical analysis
  page tests the length the same way: on an empty list it shows 0 articles, 0%
  positive and 0% negative, whatever the rounding, where the expression it skips would
  give \<^verbatim>\<open>NaN\<close>.
\<close>

theorem SentimentAggregator_empty:
  "SentimentAggregator [] =
     Inr \<lparr>positiveShare = 0, negativeShare = 0, neutralShare = 0, meanSentiment = 0\<rparr>
   \<and> normalise (foldl count_item empty_tally []) (length ([] :: news_item list))
       = Inl DivisionByZero
   \<and> (\<exists>r. SentimentAggregator items = Inr r)
   \<and> totalArticles rd [] = Finite 0
   \<and> positivePercent rd [] = Finite 0
   \<and> negativePercent rd [] = Finite 0
   \<and> roundedMean rd (map positive []) = NaN
   \<and> roundedMean rd (map negative []) = NaN"
  using SentimentAggregator_returns [of items]
  by (simp add: SentimentAggregator_def normalise_zero_count totalArticles_def
      positivePercent_def negativePercent_def roundedMean_empty)

subsection \<open>TrendClassifier\<close>

lemma TrendClassifier_history:
  "TrendClassifier t (history @ [previous, latest]) = classify_delta t (latest - previous)"
proof (induction history)
  case Nil
  show ?case by simp
next
  case (Cons h history)
  then show ?case
    by (cases history; cases "tl history") auto
qed

lemma classify_delta_pos:
  assumes "0 < t"
  shows "(classify_delta t d = Stable) = (\<bar>d\<bar> < t)"
    and "(classify_delta t d = Increasing) = (d \<ge> t)"
    and "(classify_delta t d = Decreasing) = (d \<le> - t)"
  using assms by (auto simp add: classify_delta_def)

text \<open>
  C8: for two successive snapshots (previous, latest) and a positive threshold t, such
  as the default 0.03, the trend is stable exactly when the absolute delta is below t,
  increasing exactly when the delta is at least t, decreasing exactly when it is at
  most -t; a snapshot repeated has delta 0 and is stable; a single snapshot is stable
  whatever the threshold.
\<close>

theorem TrendClassifier_threshold:
  "(0 < t \<longrightarrow>
      (TrendClassifier t [previous, latest] = Stable) = (\<bar>latest - previous\<bar> < t)
    \<and> (TrendClassifier t [previous, latest] = Increasing) = (latest - previous \<ge> t)
    \<and> (TrendClassifier t [previous, latest] = Decreasing) = (latest - previous \<le> - t)
    \<and> TrendClassifier t [s, s] = Stable)
   \<and> TrendClassifier t [s] = Stable"
proof -
  have "TrendClassifier t [s, s] = Stable" if "0 < t"
    using that by (simp add: classify_delta_def)
  then show ?thesis
    using classify_delta_pos[of t "latest - previous"] by simp
qed

text \<open>
  With the default threshold 0.03 and a previous score of 0.50: 0.52 is stable, 0.53
  (a delta of exactly 0.03) is increasing, 0.47 is decreasing.
\<close>

theorem TrendClassifier_threshold_witness:
  "0 < default_threshold
   \<and> TrendClassifier default_threshold [0.50, 0.52] = Stable
   \<and> TrendClassifier default_threshold [0.50, 0.53] = Increasing
   \<and> TrendClassifier default_threshold [0.50, 0.47] = Decreasing
   \<and> TrendClassifier default_threshold [0.50, 0.50] = Stable
   \<and> TrendClassifier default_threshold [0.50] = Stable"
proof -
  have pos: "0 < default_threshold" by (simp add: default_threshold_def)
  from pos TrendClassifier_threshold [of default_threshold "0.50" "0.52" "0.50"]
  have "TrendClassifier default_threshold [0.50, 0.52] = Stable"
    and "TrendClassifier default_threshold [0.50, 0.50] = Stable"
    and "TrendClassifier default_threshold [0.50] = Stable"
    by (simp_all add: default_threshold_def)
  moreover from pos TrendClassifier_threshold [of default_threshold "0.50" "0.53" "0.50"]
  have "TrendClassifier default_threshold [0.50, 0.53] = Increasing"
    by (simp add: default_threshold_def)
  moreover from pos TrendClassifier_threshold [of default_threshold "0.50" "0.47" "0.50"]
  have "TrendClassifier default_threshold [0.50, 0.47] = Decreasing"
    by (simp add: default_threshold_def)
  ultimately show ?thesis using pos by blast
qed

subsection \<open>AnalysisOrchestrator\<close>

lemma max_level_rank: "level_rank (max_level a b) = max (level_rank a) (level_rank b)"
  by (simp add: max_level_def)

lemma foldl_max_level_start: "level_rank a \<le> level_rank (foldl max_level a ls)"
proof (induction ls arbitrary: a)
  case Nil
  show ?case by simp
next
  case (Cons b ls)
  have "level_rank a \<le> level_rank (max_level a b)"
    by (simp add: max_level_rank)
  also have "\<dots> \<le> level_rank (foldl max_level (max_level a b) ls)"
    by (rule Cons.IH)
  finally show ?case by simp
qed

lemma foldl_max_level_elem:
  "l \<in> set ls \<Longrightarrow> level_rank l \<le> level_rank (foldl max_level a ls)"
proof (induction ls arbitrary: a)
  case Nil
  then show ?case by simp
next
  case (Cons b ls)
  show ?case
  proof (cases "l = b")
    case True
    have "level_rank b \<le> level_rank (max_level a b)"
      by (simp add: max_level_rank)
    also have "\<dots> \<le> level_rank (foldl max_level (max_level a b) ls)"
      by (rule foldl_max_level_start)
    finally show ?thesis using True by simp
  next
    case False
    with Cons.prems have "l \<in> set ls" by simp
    then show ?thesis using Cons.IH by simp
  qed
qed

lemma foldl_max_level_in: "foldl max_level a ls \<in> set (a # ls)"
  by (induction ls arbitrary: a) (auto simp add: max_level_def)

text \<open>
  C6: for every non-empty list of requested regions the global risk level is the
  maximum of the regions' levels in the order Low, Medium, High: it is the level of
  one of the regions and no region's level is above it. It is not an average: the
  levels Low, Medium, High give High.
\<close>

theorem globalRiskLevel_is_max:
  "(levels \<noteq> [] \<longrightarrow>
      (\<exists>g. globalRiskLevel levels = Some g \<and> g \<in> set levels
         \<and> (\<forall>l \<in> set levels. level_rank l \<le> level_rank g)))
   \<and> globalRiskLevel [Low, Medium, High] = Some High"
proof (cases levels)
  case Nil
  then show ?thesis by (simp add: max_level_def)
next
  case (Cons a ls)
  have "foldl max_level a ls \<in> set (a # ls)" by (rule foldl_max_level_in)
  moreover have "\<forall>l \<in> set (a # ls). level_rank l \<le> level_rank (foldl max_level a ls)"
    using foldl_max_level_start foldl_max_level_elem by auto
  moreover have "globalRiskLevel [Low, Medium, High] = Some High"
    by (simp add: max_level_def)
  ultimately show ?thesis using Cons by simp
qed

text \<open>One High region among three dominates, wherever it stands in the request.\<close>

theorem globalRiskLevel_is_max_witness:
  "[High, Low, Low] \<noteq> [] \<and> globalRiskLevel [High, Low, Low] = Some High"
proof -
  have ne: "[High, Low, Low] \<noteq> []" by simp
  with globalRiskLevel_is_max [of "[High, Low, Low]"]
  obtain g where g: "globalRiskLevel [High, Low, Low] = Some g"
    and ge: "\<forall>l \<in> set [High, Low, Low]. level_rank l \<le> level_rank g"
    by blast
  from ge have "level_rank High \<le> level_rank g" by simp
  then have "g = High" by (cases g) simp_all
  with g ne show ?thesis by simp
qed

end
